theory Spec2Isabelle
  imports Complex_Main "HOL-Library.Mapping" "HOL-Library.Log_Nat"
begin

section \<open>Data model\<close>

text \<open>
  A \<open>float64\<close> quantity (a price, a balance, a fee rate) is the real number it denotes.
  Comparisons are those of the reals. Each arithmetic operation of the program returns
  the exact result rounded to the nearest binary64 number, ties to the even significand:
  53 significant bits, the spacing never below \<open>2 powi - 1074\<close> (gradual underflow).
  Infinities and NaN are not numbers of the model: it follows the program as long as
  no operation divides by zero and every exact result is below the overflow threshold
  \<open>2 ^ 1024 - 2 ^ 970\<close> in magnitude (\<open>fits64\<close>). Go's \<open>int\<close> is read as \<open>int\<close>; the
  program only compares these integers and converts them to \<open>float64\<close>.
\<close>

type_synonym float64 = real

text \<open>The exponent \<open>e\<close> with \<open>2 powi e \<le> \<bar>x\<bar> < 2 powi (e + 1)\<close>, for \<open>x \<noteq> 0\<close>.\<close>

definition binary_exponent :: "real \<Rightarrow> int" where
  "binary_exponent x =
     (if 1 \<le> \<bar>x\<bar> then bitlen \<lfloor>\<bar>x\<bar>\<rfloor> - 1
      else - bitlen (\<lceil>1 / \<bar>x\<bar>\<rceil> - 1))"

text \<open>The spacing of the binary64 numbers around \<open>x\<close>.\<close>

definition ulp :: "real \<Rightarrow> real" where
  "ulp x = 2 powi (max (binary_exponent x - 52) (- 1074))"

definition round_half_even :: "real \<Rightarrow> int" where
  "round_half_even m =
     (let f = \<lfloor>m\<rfloor>; r = m - of_int f in
      if r < 1 / 2 then f
      else if r > 1 / 2 then f + 1
      else if even f then f else f + 1)"

definition round64 :: "real \<Rightarrow> float64" where
  "round64 x = sgn x * of_int (round_half_even (\<bar>x\<bar> / ulp x)) * ulp x"


definition fadd :: "float64 \<Rightarrow> float64 \<Rightarrow> float64" where
  "fadd x y = round64 (x + y)"

definition fsub :: "float64 \<Rightarrow> float64 \<Rightarrow> float64" where
  "fsub x y = round64 (x - y)"

definition fmul :: "float64 \<Rightarrow> float64 \<Rightarrow> float64" where
  "fmul x y = round64 (x * y)"

definition fdiv :: "float64 \<Rightarrow> float64 \<Rightarrow> float64" where
  "fdiv x y = round64 (x / y)"

text \<open>The conversion \<open>float64(n)\<close> of an \<open>int\<close>.\<close>

definition float64_of_int :: "int \<Rightarrow> float64" where
  "float64_of_int n = round64 (real_of_int n)"

type_synonym venue_error = string

text \<open>
  Modelled from the spec: the declarations of \<open>exchange.Account\<close>, \<open>exchange.Position\<close>
  and \<open>exchange.IExchange\<close> are not part of the sources at hand. The records below carry
  the fields and methods that \<open>safety.go\<close> and the take-profit monitor read, with the
  types they are used at; the venue contract describes them as an account snapshot of
  wallet balance, margin balance, available balance and account-level leverage, and as
  per-symbol positions with a signed size and a leverage.
\<close>

record Account =
  TotalWalletBalance :: float64
  TotalMarginBalance :: float64
  AvailableBalance :: float64
  AccountLeverage :: int

record Position =
  Symbol :: string
  Size :: float64
  Leverage :: int

text \<open>
  A venue is described by what its methods answer during the call under study. A Go
  result \<open>(v, err)\<close> is a sum: \<open>Inl err\<close> when \<open>err \<noteq> nil\<close>, \<open>Inr v\<close> otherwise. A nil
  slice of positions is the empty list (ranging over either does nothing).
\<close>

record IExchange =
  GetName :: string
  GetQuoteAsset :: string
  GetAccount :: "venue_error + Account"
  GetPositions :: "string \<Rightarrow> venue_error + Position list"

section \<open>Pre-trade safety check (safety/safety.go)\<close>

datatype safety_error =
    AccountFetchFailed venue_error
  | InsufficientBalance float64
  | LeverageTooHigh int int
  | InsufficientCapacity int float64
  | NonPositiveNetProfit float64

text \<open>\<open>tryGetBinanceLeverage\<close> is a stub in the source: it always answers 0.\<close>

definition tryGetBinanceLeverage :: "IExchange \<Rightarrow> string \<Rightarrow> int" where
  "tryGetBinanceLeverage ex symbol = 0"

text \<open>
  The loop over the positions (lines 38 to 50): it starts from \<open>leverage = 1\<close> and
  \<open>positionAmt = 0\<close>, stops at the first entry whose symbol is the configured one, takes
  its size, and takes its leverage when that is positive. The pair returned is
  \<open>(positionAmt, leverage)\<close>.
\<close>

fun scan_positions :: "Position list \<Rightarrow> string \<Rightarrow> float64 \<times> int" where
  "scan_positions [] symbol = (0, 1)"
| "scan_positions (p # ps) symbol =
     (if Symbol p = symbol
      then (Size p, if Leverage p > 0 then Leverage p else 1)
      else scan_positions ps symbol)"

definition read_positions :: "IExchange \<Rightarrow> string \<Rightarrow> float64 \<times> int" where
  "read_positions ex symbol =
     (case GetPositions ex symbol of
        Inl err \<Rightarrow> (0, 1)
      | Inr positions \<Rightarrow> scan_positions positions symbol)"

definition positionAmt :: "IExchange \<Rightarrow> string \<Rightarrow> float64" where
  "positionAmt ex symbol = fst (read_positions ex symbol)"

text \<open>
  The leverage the checks use (lines 35 to 76): the value left by the loop; replaced by
  the account's leverage when it is 1 and the account's leverage is positive; then, on
  Binance and still 1, replaced by \<open>tryGetBinanceLeverage\<close> when that is positive.
\<close>

definition account_fallback :: "int \<Rightarrow> Account \<Rightarrow> int" where
  "account_fallback leverage account =
     (if leverage = 1 \<and> AccountLeverage account > 0 then AccountLeverage account
      else leverage)"

definition binance_fallback :: "IExchange \<Rightarrow> string \<Rightarrow> int \<Rightarrow> int" where
  "binance_fallback ex symbol leverage =
     (if leverage = 1 \<and> GetName ex = ''Binance''
      then (let binanceLeverage = tryGetBinanceLeverage ex symbol
            in if binanceLeverage > 0 then binanceLeverage else leverage)
      else leverage)"

definition determined_leverage :: "IExchange \<Rightarrow> string \<Rightarrow> Account \<Rightarrow> int" where
  "determined_leverage ex symbol account =
     binance_fallback ex symbol (account_fallback (snd (read_positions ex symbol)) account)"

text \<open>
  The capacity of step 4 and the fee arithmetic of step 6, one definition per local,
  every operation a \<open>float64\<close> operation.
\<close>

definition maxPositions :: "float64 \<Rightarrow> int \<Rightarrow> float64 \<Rightarrow> float64" where
  "maxPositions accountBalance leverage orderAmount =
     fdiv (fmul accountBalance (float64_of_int leverage)) orderAmount"

definition buyQuantity :: "float64 \<Rightarrow> float64 \<Rightarrow> float64" where
  "buyQuantity currentPrice orderAmount = fdiv orderAmount currentPrice"

definition sellAmount :: "float64 \<Rightarrow> float64 \<Rightarrow> float64 \<Rightarrow> float64" where
  "sellAmount currentPrice orderAmount priceInterval =
     fmul (fadd currentPrice priceInterval) (buyQuantity currentPrice orderAmount)"

definition profitPerTrade :: "float64 \<Rightarrow> float64 \<Rightarrow> float64 \<Rightarrow> float64" where
  "profitPerTrade currentPrice orderAmount priceInterval =
     fsub (sellAmount currentPrice orderAmount priceInterval) orderAmount"

definition totalFee :: "float64 \<Rightarrow> float64 \<Rightarrow> float64 \<Rightarrow> float64 \<Rightarrow> float64" where
  "totalFee currentPrice orderAmount priceInterval feeRate =
     fadd (fmul orderAmount feeRate)
       (fmul (sellAmount currentPrice orderAmount priceInterval) feeRate)"

definition netProfit :: "float64 \<Rightarrow> float64 \<Rightarrow> float64 \<Rightarrow> float64 \<Rightarrow> float64" where
  "netProfit currentPrice orderAmount priceInterval feeRate =
     fsub (profitPerTrade currentPrice orderAmount priceInterval)
       (totalFee currentPrice orderAmount priceInterval feeRate)"


text \<open>
  \<open>CheckAccountSafety\<close>: \<open>Inr ()\<close> is the source's \<open>return nil\<close>, \<open>Inl e\<close> one of its
  five \<open>fmt.Errorf\<close> returns, in the order the source takes them. \<open>priceDecimals\<close> only
  formats log lines.
\<close>

definition CheckAccountSafety ::
  "IExchange \<Rightarrow> string \<Rightarrow> float64 \<Rightarrow> float64 \<Rightarrow> float64 \<Rightarrow> float64 \<Rightarrow> int \<Rightarrow> int \<Rightarrow> int
     \<Rightarrow> safety_error + unit" where
  "CheckAccountSafety ex symbol currentPrice orderAmount priceInterval feeRate
       requiredPositions priceDecimals maxLeverage =
     (case GetAccount ex of
        Inl err \<Rightarrow> Inl (AccountFetchFailed err)
      | Inr account \<Rightarrow>
          if positionAmt ex symbol \<noteq> 0 then Inr ()
          else if AvailableBalance account \<le> 0
            then Inl (InsufficientBalance (AvailableBalance account))
          else let leverage = determined_leverage ex symbol account in
            if leverage > maxLeverage then Inl (LeverageTooHigh leverage maxLeverage)
            else if maxPositions (AvailableBalance account) leverage orderAmount
                      < float64_of_int requiredPositions
              then Inl (InsufficientCapacity requiredPositions
                          (maxPositions (AvailableBalance account) leverage orderAmount))
            else if netProfit currentPrice orderAmount priceInterval feeRate \<le> 0
              then Inl (NonPositiveNetProfit
                          (netProfit currentPrice orderAmount priceInterval feeRate))
            else Inr ())"

section \<open>Configuration (package config)\<close>

record AppConfig =
  CurrentExchange :: string

record ExchangeConfig =
  APIKey :: string
  SecretKey :: string
  Passphrase :: string
  FeeRate :: float64

record TakeProfitConfig =
  Enabled :: bool
  TargetProfit :: float64
  CheckInterval :: int
  BalanceMode :: string

record TradingConfig =
  Trading_Symbol :: string
  PriceInterval :: float64
  OrderQuantity :: float64
  MinOrderValue :: float64
  BuyWindowSize :: int
  SellWindowSize :: int
  ReconcileInterval :: int
  OrderCleanupThreshold :: int
  CleanupBatchSize :: int
  MarginLockDurationSec :: int
  PositionSafetyCheck :: int
  MaxLeverage :: int
  TakeProfit :: TakeProfitConfig

record SystemConfig =
  System_LogLevel :: string
  CancelOnExit :: bool

record RiskControlConfig =
  RiskControl_Enabled :: bool
  MonitorSymbols :: "string list"
  Interval :: string
  VolumeMultiplier :: float64
  AverageWindow :: int
  RecoveryThreshold :: int

record TimingConfig =
  WebSocketReconnectDelay :: int
  WebSocketWriteWait :: int
  WebSocketPongWait :: int
  WebSocketPingInterval :: int
  ListenKeyKeepAliveInterval :: int
  PriceSendInterval :: int
  RateLimitRetryDelay :: int
  OrderRetryDelay :: int
  PricePollInterval :: int
  StatusPrintInterval :: int
  OrderCleanupInterval :: int

record Config =
  App :: AppConfig
  Exchanges :: "(string, ExchangeConfig) mapping"
  Trading :: TradingConfig
  System :: SystemConfig
  RiskControl :: RiskControlConfig
  Timing :: TimingConfig

datatype config_error =
    MissingCurrentExchange
  | NoExchangesConfigured
  | ExchangeNotConfigured string
  | IncompleteAPIConfig string
  | NegativeFeeRate string
  | EmptySymbol
  | NonPositiveOrderQuantity
  | NonPositiveBuyWindow
  | BadTargetProfit
  | BadCheckInterval
  | BadBalanceMode

text \<open>
  \<open>Validate\<close> works on the configuration in place and returns an error or nil. The
  model returns the error, or the configuration as \<open>Validate\<close> leaves it. The function
  is cut where the source's comments cut it: the checks that return early (lines 110
  to 141), the defaults of the trading, timing and risk-control fields (lines 142 to
  214), and the take-profit section (lines 216 to 235).
\<close>

definition required_fields :: "Config \<Rightarrow> config_error option" where
  "required_fields c =
     (if CurrentExchange (App c) = [] then Some MissingCurrentExchange
      else if Mapping.is_empty (Exchanges c) then Some NoExchangesConfigured
      else case Mapping.lookup (Exchanges c) (CurrentExchange (App c)) of
        None \<Rightarrow> Some (ExchangeNotConfigured (CurrentExchange (App c)))
      | Some exchangeCfg \<Rightarrow>
          if APIKey exchangeCfg = [] \<or> SecretKey exchangeCfg = []
            then Some (IncompleteAPIConfig (CurrentExchange (App c)))
          else if FeeRate exchangeCfg < 0
            then Some (NegativeFeeRate (CurrentExchange (App c)))
          else if Trading_Symbol (Trading c) = [] then Some EmptySymbol
          else if OrderQuantity (Trading c) \<le> 0 then Some NonPositiveOrderQuantity
          else if BuyWindowSize (Trading c) \<le> 0 then Some NonPositiveBuyWindow
          else None)"

definition trading_defaults :: "TradingConfig \<Rightarrow> TradingConfig" where
  "trading_defaults t =
     (let t = (if SellWindowSize t \<le> 0 then t\<lparr>SellWindowSize := BuyWindowSize t\<rparr> else t);
          t = (if CleanupBatchSize t \<le> 0 then t\<lparr>CleanupBatchSize := 10\<rparr> else t);
          t = (if MinOrderValue t \<le> 0 then t\<lparr>MinOrderValue := 20\<rparr> else t);
          t = (if MaxLeverage t \<le> 0 then t\<lparr>MaxLeverage := 10\<rparr> else t)
      in t)"

definition default_to :: "int \<Rightarrow> int \<Rightarrow> int" where
  "default_to d v = (if v \<le> 0 then d else v)"

definition timing_defaults :: "TimingConfig \<Rightarrow> TimingConfig" where
  "timing_defaults t =
     t\<lparr>WebSocketReconnectDelay := default_to 5 (WebSocketReconnectDelay t),
       WebSocketWriteWait := default_to 10 (WebSocketWriteWait t),
       WebSocketPongWait := default_to 60 (WebSocketPongWait t),
       WebSocketPingInterval := default_to 20 (WebSocketPingInterval t),
       ListenKeyKeepAliveInterval := default_to 30 (ListenKeyKeepAliveInterval t),
       PriceSendInterval := default_to 50 (PriceSendInterval t),
       RateLimitRetryDelay := default_to 1 (RateLimitRetryDelay t),
       OrderRetryDelay := default_to 500 (OrderRetryDelay t),
       PricePollInterval := default_to 500 (PricePollInterval t),
       StatusPrintInterval := default_to 1 (StatusPrintInterval t),
       OrderCleanupInterval := default_to 60 (OrderCleanupInterval t)\<rparr>"

text \<open>
  The recovery threshold (lines 206 to 214), an \<open>if / else if\<close> chain on the configured
  value and the number of monitored symbols, after \<open>monitor_symbols\<close> got its default.
\<close>

definition recovery_threshold :: "int \<Rightarrow> int \<Rightarrow> int" where
  "recovery_threshold configured monitorCount =
     (if configured \<le> 0 then 3
      else if configured < 1 then 1
      else if configured > monitorCount then monitorCount
      else configured)"

definition risk_defaults :: "RiskControlConfig \<Rightarrow> RiskControlConfig" where
  "risk_defaults r =
     (let r = (if Interval r = [] then r\<lparr>Interval := ''1m''\<rparr> else r);
          r = (if VolumeMultiplier r \<le> 0 then r\<lparr>VolumeMultiplier := 3\<rparr> else r);
          r = (if AverageWindow r \<le> 0 then r\<lparr>AverageWindow := 20\<rparr> else r);
          r = (if length (MonitorSymbols r) = 0
               then r\<lparr>MonitorSymbols :=
                      [''BTCUSDT'', ''ETHUSDT'', ''SOLUSDT'', ''XRPUSDT'', ''DOGEUSDT'']\<rparr>
               else r);
          monitorCount = int (length (MonitorSymbols r))
      in r\<lparr>RecoveryThreshold := recovery_threshold (RecoveryThreshold r) monitorCount\<rparr>)"

definition take_profit_section :: "TakeProfitConfig \<Rightarrow> config_error + TakeProfitConfig" where
  "take_profit_section tp =
     (if Enabled tp then
        (if TargetProfit tp \<le> 0 then Inl BadTargetProfit
         else if CheckInterval tp < 10 \<or> CheckInterval tp > 300 then Inl BadCheckInterval
         else if BalanceMode tp \<noteq> ''auto'' \<and> BalanceMode tp \<noteq> ''precise''
           then Inl BadBalanceMode
         else
           (let tp = (if CheckInterval tp \<le> 0 then tp\<lparr>CheckInterval := 30\<rparr> else tp);
                tp = (if BalanceMode tp = [] then tp\<lparr>BalanceMode := ''auto''\<rparr> else tp)
            in Inr tp))
      else Inr tp)"

definition Validate :: "Config \<Rightarrow> config_error + Config" where
  "Validate c =
     (case required_fields c of
        Some err \<Rightarrow> Inl err
      | None \<Rightarrow>
          (let c = c\<lparr>Trading := trading_defaults (Trading c)\<rparr>;
               c = c\<lparr>Timing := timing_defaults (Timing c)\<rparr>;
               c = c\<lparr>RiskControl := risk_defaults (RiskControl c)\<rparr>
           in case take_profit_section (TakeProfit (Trading c)) of
                Inl err \<Rightarrow> Inl err
              | Inr tp \<Rightarrow> Inr (c\<lparr>Trading := (Trading c)\<lparr>TakeProfit := tp\<rparr>\<rparr>)))"

section \<open>Log levels (package logger)\<close>

datatype LogLevel = DEBUG | INFO | WARN | ERROR | FATAL

text \<open>
  \<open>strings.ToUpper\<close> and \<open>strings.TrimSpace\<close> belong to Go's standard library, with
  its Unicode tables; \<open>ParseLogLevel\<close> takes them as parameters, so that what is proved
  holds for the library's functions whatever they do outside ASCII.
\<close>

definition ParseLogLevel ::
  "(string \<Rightarrow> string) \<Rightarrow> (string \<Rightarrow> string) \<Rightarrow> string \<Rightarrow> LogLevel" where
  "ParseLogLevel ToUpper TrimSpace level =
     (let level = ToUpper (TrimSpace level) in
      if level = ''DEBUG'' then DEBUG
      else if level = ''INFO'' then INFO
      else if level = ''WARN'' \<or> level = ''WARNING'' then WARN
      else if level = ''ERROR'' then ERROR
      else if level = ''FATAL'' then FATAL
      else INFO)"

text \<open>The two library functions on ASCII text, for running \<open>ParseLogLevel\<close>.\<close>

definition ascii_upper_char :: "char \<Rightarrow> char" where
  "ascii_upper_char c =
     (let n = (of_char c :: nat) in
      if 97 \<le> n \<and> n \<le> 122 then char_of (n - 32) else c)"

definition ascii_ToUpper :: "string \<Rightarrow> string" where
  "ascii_ToUpper s = map ascii_upper_char s"

definition ascii_space :: "char \<Rightarrow> bool" where
  "ascii_space c = ((of_char c :: nat) \<in> {9, 10, 11, 12, 13, 32})"

definition ascii_TrimSpace :: "string \<Rightarrow> string" where
  "ascii_TrimSpace s = rev (dropWhile ascii_space (rev (dropWhile ascii_space s)))"

section \<open>Take-profit monitor (package safety)\<close>

text \<open>
  The monitor's atomics are fields of a record; an \<open>atomic.Value\<close> that nothing was
  stored in is \<open>None\<close>. The venue is not a field: each operation that calls
  \<open>GetAccount\<close> takes the venue's answer to that call as an argument.
\<close>

record TakeProfitMonitor =
  cfg :: Config
  initialBalance :: "float64 option"
  lastBalance :: "float64 option"
  triggered :: bool
  isBalanceSet :: bool

definition NewTakeProfitMonitor :: "Config \<Rightarrow> TakeProfitMonitor" where
  "NewTakeProfitMonitor c =
     \<lparr>cfg = c, initialBalance = None, lastBalance = None, triggered = False,
      isBalanceSet = False\<rparr>"

definition getEffectiveBalance :: "TakeProfitMonitor \<Rightarrow> Account \<Rightarrow> float64" where
  "getEffectiveBalance t account =
     (let balance = TotalMarginBalance account in
      if balance > 0 then balance
      else if TotalWalletBalance account > 0 then TotalWalletBalance account
      else AvailableBalance account)"

datatype take_profit_error = InitialFetchFailed venue_error | InvalidBalance float64

definition SetInitialBalance ::
  "TakeProfitMonitor \<Rightarrow> venue_error + Account \<Rightarrow> take_profit_error + TakeProfitMonitor" where
  "SetInitialBalance t response =
     (case response of
        Inl err \<Rightarrow> Inl (InitialFetchFailed err)
      | Inr account \<Rightarrow>
          (let balance = getEffectiveBalance t account in
           if balance \<le> 0 then Inl (InvalidBalance balance)
           else Inr (t\<lparr>initialBalance := Some balance, lastBalance := Some balance,
                       isBalanceSet := True\<rparr>)))"

text \<open>
  \<open>checkProfitAndTrigger\<close> returns its boolean and the monitor as it leaves it. The
  type assertion \<open>t.initialBalance.Load().(float64)\<close> panics when nothing was stored:
  that is \<open>None\<close>.
\<close>

definition checkProfitAndTrigger ::
  "TakeProfitMonitor \<Rightarrow> venue_error + Account \<Rightarrow> (bool \<times> TakeProfitMonitor) option" where
  "checkProfitAndTrigger t response =
     (if triggered t then Some (False, t)
      else case response of
        Inl err \<Rightarrow> Some (False, t)
      | Inr account \<Rightarrow>
          (let currentBalance = getEffectiveBalance t account;
               t = t\<lparr>lastBalance := Some currentBalance\<rparr>
           in case initialBalance t of
                None \<Rightarrow> None
              | Some initial \<Rightarrow>
                  (let totalProfit = fsub currentBalance initial in
                   if totalProfit \<ge> TargetProfit (TakeProfit (Trading (cfg t)))
                   then Some (True, t\<lparr>triggered := True\<rparr>)
                   else Some (False, t))))"

definition IsTriggered :: "TakeProfitMonitor \<Rightarrow> bool" where
  "IsTriggered t = triggered t"

text \<open>
  \<open>Start\<close> is a loop over what its \<open>select\<close> receives: the context's cancellation or a
  tick of the ticker, the latter with the venue's answer to the \<open>GetAccount\<close> call of
  that tick. The loop is run on a finite sequence of such events; it reports how it
  ended, how many times it called \<open>onTrigger\<close>, and the monitor. \<open>AwaitingEvent\<close> says
  that the events ran out with the loop still in its \<open>select\<close>.
\<close>

datatype start_event = CtxDone | Tick "venue_error + Account"

datatype start_outcome = NotEnabled | Stopped | ReturnedAfterTrigger | Panicked | AwaitingEvent

fun Start_loop ::
  "TakeProfitMonitor \<Rightarrow> nat \<Rightarrow> start_event list \<Rightarrow> start_outcome \<times> nat \<times> TakeProfitMonitor" where
  "Start_loop t calls [] = (AwaitingEvent, calls, t)"
| "Start_loop t calls (CtxDone # events) = (Stopped, calls, t)"
| "Start_loop t calls (Tick response # events) =
     (if \<not> isBalanceSet t then Start_loop t calls events
      else case checkProfitAndTrigger t response of
        None \<Rightarrow> (Panicked, calls, t)
      | Some (fired, t') \<Rightarrow>
          if fired then (ReturnedAfterTrigger, calls + 1, t')
          else Start_loop t' calls events)"

definition Start :: "TakeProfitMonitor \<Rightarrow> start_event list \<Rightarrow> start_outcome \<times> nat \<times> TakeProfitMonitor" where
  "Start t events =
     (if \<not> Enabled (TakeProfit (Trading (cfg t))) then (NotEnabled, 0, t)
      else Start_loop t 0 events)"

section \<open>The price-event loop of main\<close>

text \<open>
  Each price event reaches the loop with the answer \<open>riskMonitor.IsTriggered()\<close> gives
  when the event is handled. The loop keeps \<open>lastTriggered\<close>; what it does on an event
  is the list of calls it makes on the position manager.
\<close>

record price_event =
  RiskTriggered :: bool
  NewPrice :: float64

datatype manager_call = CancelAllBuyOrders | AdjustOrders float64

fun price_loop :: "bool \<Rightarrow> price_event list \<Rightarrow> manager_call list list" where
  "price_loop lastTriggered [] = []"
| "price_loop lastTriggered (priceChange # events) =
     (if RiskTriggered priceChange then
        (if \<not> lastTriggered then [CancelAllBuyOrders] # price_loop True events
         else [] # price_loop lastTriggered events)
      else
        (let lastTriggered = (if lastTriggered then False else lastTriggered)
         in [AdjustOrders (NewPrice priceChange)] # price_loop lastTriggered events))"

definition main_price_loop :: "price_event list \<Rightarrow> manager_call list list" where
  "main_price_loop events = price_loop False events"

section \<open>Reference definitions and concrete inputs\<close>

text \<open>
  The leverage as the specification words it: the position's leverage if positive,
  else the account's leverage if positive, else 1. The position is the entry of the
  configured symbol in the venue's answer.
\<close>

definition claimed_leverage :: "IExchange \<Rightarrow> string \<Rightarrow> Account \<Rightarrow> int" where
  "claimed_leverage ex symbol account =
     (let positionLeverage =
            (case GetPositions ex symbol of
               Inl err \<Rightarrow> 0
             | Inr positions \<Rightarrow>
                 (case find (\<lambda>p. Symbol p = symbol) positions of
                    None \<Rightarrow> 0
                  | Some p \<Rightarrow> Leverage p))
      in if positionLeverage > 0 then positionLeverage
         else if AccountLeverage account > 0 then AccountLeverage account
         else 1)"

text \<open>
  The net profit per cycle as the specification words it, at current price \<open>P\<close>, order
  notional \<open>N\<close>, grid step \<open>\<Delta>\<close>: \<open>(\<Delta> \<cdot> N/P) - (buy_fee + sell_fee)\<close> with
  \<open>buy_fee = N \<cdot> feeRate\<close> and \<open>sell_fee = (P + \<Delta>) \<cdot> (N/P) \<cdot> feeRate\<close>.
\<close>

definition reference_net_profit :: "float64 \<Rightarrow> float64 \<Rightarrow> float64 \<Rightarrow> float64 \<Rightarrow> float64" where
  "reference_net_profit P N \<Delta> feeRate =
     \<Delta> * (N / P) - (N * feeRate + (P + \<Delta>) * (N / P) * feeRate)"

text \<open>The fee rate 0.0005 as a \<open>float64\<close>: the binary64 number nearest to it.\<close>

definition fee_5bp :: float64 where
  "fee_5bp = round64 (5 / 10000)"

definition account_x20 :: Account where
  "account_x20 =
     \<lparr>TotalWalletBalance = 3000, TotalMarginBalance = 3000, AvailableBalance = 3000,
      AccountLeverage = 20\<rparr>"

definition account_empty :: Account where
  "account_empty =
     \<lparr>TotalWalletBalance = 0, TotalMarginBalance = 0, AvailableBalance = 0,
      AccountLeverage = 0\<rparr>"

text \<open>A venue with no position on ETHUSDT, the entry reporting leverage 1.\<close>

definition venue_flat_x1 :: IExchange where
  "venue_flat_x1 =
     \<lparr>GetName = ''Bitget'', GetQuoteAsset = ''USDT'', GetAccount = Inr account_x20,
      GetPositions = (\<lambda>symbol. Inr [\<lparr>Symbol = ''ETHUSDT'', Size = 0, Leverage = 1\<rparr>])\<rparr>"


text \<open>A venue holding half an ETH at leverage 50, with an empty account.\<close>

definition position_long :: Position where
  "position_long = \<lparr>Symbol = ''ETHUSDT'', Size = 1 / 2, Leverage = 50\<rparr>"

definition venue_long :: IExchange where
  "venue_long =
     \<lparr>GetName = ''Bitget'', GetQuoteAsset = ''USDT'', GetAccount = Inr account_empty,
      GetPositions = (\<lambda>symbol. Inr [position_long])\<rparr>"

text \<open>
  A configuration file that names one exchange and one monitored symbol and leaves
  every optional number unset (0), the recovery threshold included.
\<close>

definition exchange_binance :: ExchangeConfig where
  "exchange_binance =
     \<lparr>APIKey = ''key'', SecretKey = ''secret'', Passphrase = [], FeeRate = 2 / 10000\<rparr>"

definition take_profit_off :: TakeProfitConfig where
  "take_profit_off = \<lparr>Enabled = False, TargetProfit = 0, CheckInterval = 0, BalanceMode = []\<rparr>"

definition config_one_symbol :: Config where
  "config_one_symbol =
     \<lparr>App = \<lparr>CurrentExchange = ''binance''\<rparr>,
      Exchanges = Mapping.update ''binance'' exchange_binance Mapping.empty,
      Trading =
        \<lparr>Trading_Symbol = ''ETHUSDT'', PriceInterval = 1, OrderQuantity = 30,
         MinOrderValue = 0, BuyWindowSize = 3, SellWindowSize = 0, ReconcileInterval = 0,
         OrderCleanupThreshold = 0, CleanupBatchSize = 0, MarginLockDurationSec = 0,
         PositionSafetyCheck = 0, MaxLeverage = 0, TakeProfit = take_profit_off\<rparr>,
      System = \<lparr>System_LogLevel = ''info'', CancelOnExit = True\<rparr>,
      RiskControl =
        \<lparr>RiskControl_Enabled = True, MonitorSymbols = [''BTCUSDT''], Interval = [],
         VolumeMultiplier = 0, AverageWindow = 0, RecoveryThreshold = 0\<rparr>,
      Timing =
        \<lparr>WebSocketReconnectDelay = 0, WebSocketWriteWait = 0, WebSocketPongWait = 0,
         WebSocketPingInterval = 0, ListenKeyKeepAliveInterval = 0, PriceSendInterval = 0,
         RateLimitRetryDelay = 0, OrderRetryDelay = 0, PricePollInterval = 0,
         StatusPrintInterval = 0, OrderCleanupInterval = 0\<rparr>\<rparr>"

text \<open>The same file with take-profit switched on at a target of 50 and no interval given.\<close>

definition take_profit_no_interval :: TakeProfitConfig where
  "take_profit_no_interval =
     \<lparr>Enabled = True, TargetProfit = 50, CheckInterval = 0, BalanceMode = ''auto''\<rparr>"

definition config_take_profit :: Config where
  "config_take_profit =
     config_one_symbol\<lparr>Trading := (Trading config_one_symbol)\<lparr>TakeProfit := take_profit_no_interval\<rparr>\<rparr>"

text \<open>
  A monitor in the middle of a run: take-profit on at a target of 50 checked every 30
  seconds, an initial balance of 1000 recorded, nothing triggered yet; the same monitor
  after it has triggered; an account that has gained 60 and one that has gained 10.
\<close>

definition take_profit_on :: TakeProfitConfig where
  "take_profit_on =
     \<lparr>Enabled = True, TargetProfit = 50, CheckInterval = 30, BalanceMode = ''auto''\<rparr>"

definition config_take_profit_on :: Config where
  "config_take_profit_on =
     config_one_symbol\<lparr>Trading := (Trading config_one_symbol)\<lparr>TakeProfit := take_profit_on\<rparr>\<rparr>"

definition monitor_running :: TakeProfitMonitor where
  "monitor_running =
     \<lparr>cfg = config_take_profit_on, initialBalance = Some 1000, lastBalance = Some 1000,
      triggered = False, isBalanceSet = True\<rparr>"

definition monitor_fired :: TakeProfitMonitor where
  "monitor_fired = monitor_running\<lparr>lastBalance := Some 1060, triggered := True\<rparr>"

definition account_up_60 :: Account where
  "account_up_60 =
     \<lparr>TotalWalletBalance = 1040, TotalMarginBalance = 1060, AvailableBalance = 900,
      AccountLeverage = 10\<rparr>"

definition account_up_10 :: Account where
  "account_up_10 =
     \<lparr>TotalWalletBalance = 1005, TotalMarginBalance = 1010, AvailableBalance = 900,
      AccountLeverage = 10\<rparr>"

text \<open>Five price events: calm, two under a risk trigger, calm, triggered again.\<close>

definition five_events :: "price_event list" where
  "five_events =
     [\<lparr>RiskTriggered = False, NewPrice = 3000\<rparr>,
      \<lparr>RiskTriggered = True, NewPrice = 2990\<rparr>,
      \<lparr>RiskTriggered = True, NewPrice = 2980\<rparr>,
      \<lparr>RiskTriggered = False, NewPrice = 2985\<rparr>,
      \<lparr>RiskTriggered = True, NewPrice = 2970\<rparr>]"

section \<open>Properties of the safety check\<close>

lemma scan_positions_find:
  "scan_positions positions symbol =
     (case find (\<lambda>p. Symbol p = symbol) positions of
        None \<Rightarrow> (0, 1)
      | Some p \<Rightarrow> (Size p, if Leverage p > 0 then Leverage p else 1))"
  by (induction positions) auto

lemma CheckAccountSafety_zero_position:
  assumes "GetAccount ex = Inr account" and "positionAmt ex symbol = 0"
  shows "CheckAccountSafety ex symbol currentPrice orderAmount priceInterval feeRate
             requiredPositions priceDecimals maxLeverage = Inr ()
         \<longleftrightarrow> determined_leverage ex symbol account \<le> maxLeverage
             \<and> AvailableBalance account > 0
             \<and> maxPositions (AvailableBalance account)
                   (determined_leverage ex symbol account) orderAmount
                 \<ge> float64_of_int requiredPositions
             \<and> netProfit currentPrice orderAmount priceInterval feeRate > 0"
  using assms by (auto simp: CheckAccountSafety_def Let_def)

text \<open>
  Where the leverage of the code and the leverage of the specification agree: everywhere
  but on a position entry that reports leverage 1 while the account reports a leverage
  above 1. There the code takes 1 for "no leverage found" and moves to the account's.
\<close>

lemma determined_leverage_claimed:
  assumes "\<not> (snd (read_positions ex symbol) = 1 \<and> AccountLeverage account > 1
              \<and> claimed_leverage ex symbol account = 1)"
  shows "determined_leverage ex symbol account = claimed_leverage ex symbol account"
  using assms
  by (auto simp: determined_leverage_def binance_fallback_def account_fallback_def
        tryGetBinanceLeverage_def read_positions_def claimed_leverage_def
        scan_positions_find Let_def
      split: sum.splits option.splits if_splits)

lemma CheckAccountSafety_claimed_leverage:
  assumes "GetAccount ex = Inr account" and "positionAmt ex symbol = 0"
    and "\<not> (snd (read_positions ex symbol) = 1 \<and> AccountLeverage account > 1
              \<and> claimed_leverage ex symbol account = 1)"
  shows "CheckAccountSafety ex symbol currentPrice orderAmount priceInterval feeRate
             requiredPositions priceDecimals maxLeverage = Inr ()
         \<longleftrightarrow> claimed_leverage ex symbol account \<le> maxLeverage
             \<and> AvailableBalance account > 0
             \<and> maxPositions (AvailableBalance account)
                   (claimed_leverage ex symbol account) orderAmount
                 \<ge> float64_of_int requiredPositions
             \<and> netProfit currentPrice orderAmount priceInterval feeRate > 0"
  using CheckAccountSafety_zero_position [OF assms(1,2)] determined_leverage_claimed [OF assms(3)]
  by simp

lemma venue_flat_x1_position: "positionAmt venue_flat_x1 ''ETHUSDT'' = 0"
  by (simp add: positionAmt_def read_positions_def venue_flat_x1_def)

lemma venue_flat_x1_leverage: "determined_leverage venue_flat_x1 ''ETHUSDT'' account_x20 = 20"
  by (simp add: determined_leverage_def binance_fallback_def account_fallback_def
        read_positions_def venue_flat_x1_def account_x20_def)

lemma venue_flat_x1_claimed: "claimed_leverage venue_flat_x1 ''ETHUSDT'' account_x20 = 1"
  by (simp add: claimed_leverage_def venue_flat_x1_def account_x20_def)



lemma float64_of_int_100: "float64_of_int 100 = 100"
  by code_simp

lemma maxPositions_3000_x1: "maxPositions 3000 1 30 = 100"
proof -
  have leverage: "float64_of_int 1 = 1"
    by code_simp
  have margin: "fmul 3000 1 = 3000"
    by code_simp
  have positions: "fdiv 3000 30 = 100"
    by code_simp
  show ?thesis
    by (simp only: maxPositions_def leverage margin positions)
qed






lemma buyQuantity_grid: "buyQuantity 3000 30 = 5764607523034235 / 576460752303423488"
  by code_simp

lemma sellAmount_grid: "sellAmount 3000 30 10 = 4236198399495373 / 140737488355328"
proof -
  have price: "fadd 3000 10 = 3010"
    by code_simp
  have amount: "fmul 3010 (5764607523034235 / 576460752303423488) = 4236198399495373 / 140737488355328"
    by code_simp
  show ?thesis
    by (simp only: sellAmount_def buyQuantity_grid price amount)
qed

lemma profitPerTrade_grid: "profitPerTrade 3000 30 10 = 14073748835533 / 140737488355328"
proof -
  have profit: "fsub (4236198399495373 / 140737488355328) 30 = 14073748835533 / 140737488355328"
    by code_simp
  show ?thesis
    by (simp only: profitPerTrade_def sellAmount_grid profit)
qed

lemma totalFee_grid: "totalFee 3000 30 10 (2 / 10000) = 3464529121343575 / 288230376151711744"
proof -
  have buyFee: "fmul 30 (2 / 10000) = 3458764513820541 / 576460752303423488"
    by code_simp
  have sellFee: "fmul (4236198399495373 / 140737488355328) (2 / 10000) = 6940587457733219 / 1152921504606846976"
    by code_simp
  have total: "fadd (3458764513820541 / 576460752303423488) (6940587457733219 / 1152921504606846976) = 3464529121343575 / 288230376151711744"
    by code_simp
  show ?thesis
    by (simp only: totalFee_def sellAmount_grid buyFee sellFee total)
qed

lemma netProfit_grid: "netProfit 3000 30 10 (2 / 10000) = 3169813561728501 / 36028797018963968"
proof -
  have net: "fsub (14073748835533 / 140737488355328) (3464529121343575 / 288230376151711744) = 3169813561728501 / 36028797018963968"
    by code_simp
  show ?thesis
    by (simp only: netProfit_def profitPerTrade_grid totalFee_grid net)
qed


lemma example_net_profit: "netProfit 3000 30 10 (2 / 10000) > 0"
  by (simp only: netProfit_grid)








text \<open>
  Claim C1. With no position on the symbol and both fetches answered, the check is
  said to return nil exactly when the leverage (the position's if positive, else the
  account's if positive, else 1) is at most \<open>maxLeverage\<close>, the available balance is
  positive, balance times leverage over the order amount reaches \<open>requiredPositions\<close>,
  and the net profit per cycle is positive. The code departs from this on a position
  entry that reports leverage 1: it reads 1 as "no leverage found in the positions"
  and replaces it by the account's leverage. On the venue \<open>venue_flat_x1\<close> (entry of
  size 0 and leverage 1, account leverage 20, balance 3000) with price 3000, order
  amount 30, step 10, fee rate 0.0002, 100 required positions and \<open>maxLeverage = 10\<close>,
  every condition of the claim holds at the claimed leverage 1, and the code refuses
  to start on a leverage of 20.
\<close>

theorem CheckAccountSafety_leverage_one_overridden:
  "GetAccount venue_flat_x1 = Inr account_x20
   \<and> positionAmt venue_flat_x1 ''ETHUSDT'' = 0
   \<and> claimed_leverage venue_flat_x1 ''ETHUSDT'' account_x20 = 1
   \<and> claimed_leverage venue_flat_x1 ''ETHUSDT'' account_x20 \<le> 10
   \<and> AvailableBalance account_x20 > 0
   \<and> maxPositions (AvailableBalance account_x20)
         (claimed_leverage venue_flat_x1 ''ETHUSDT'' account_x20) 30 \<ge> float64_of_int 100
   \<and> netProfit 3000 30 10 (2 / 10000) > 0
   \<and> CheckAccountSafety venue_flat_x1 ''ETHUSDT'' 3000 30 10 (2 / 10000) 100 2 10
       = Inl (LeverageTooHigh 20 10)"
proof -
  have account: "GetAccount venue_flat_x1 = Inr account_x20"
    by (simp add: venue_flat_x1_def)
  have balance: "AvailableBalance account_x20 = 3000"
    by (simp add: account_x20_def)
  have capacity: "maxPositions 3000 1 30 \<ge> float64_of_int 100"
    by (simp add: maxPositions_3000_x1 float64_of_int_100)
  have refused: "CheckAccountSafety venue_flat_x1 ''ETHUSDT'' 3000 30 10 (2 / 10000) 100 2 10
      = Inl (LeverageTooHigh 20 10)"
    by (simp add: CheckAccountSafety_def account balance venue_flat_x1_position
          venue_flat_x1_leverage)
  show ?thesis
    using account balance capacity refused example_net_profit
    by (simp add: venue_flat_x1_position venue_flat_x1_claimed)
qed






text \<open>
  The same happens on an everyday grid: step 2 and order amount 30 at price 1999 with
  the fee rate 0.0005. The reference net profit is below 0 (the \<open>float64\<close> fee rate lies
  just above 0.0005), the net profit the code computes is above 0.
\<close>

lemma fee_5bp_value: "fee_5bp = 1152921504606847 / 2305843009213693952"
  unfolding fee_5bp_def by code_simp

lemma buyQuantity_everyday: "buyQuantity 1999 30 = 4325618451501427 / 288230376151711744"
  by code_simp

lemma sellAmount_everyday: "sellAmount 1999 30 2 = 8452697774857769 / 281474976710656"
proof -
  have price: "fadd 1999 2 = 2001"
    by code_simp
  have amount: "fmul 2001 (4325618451501427 / 288230376151711744) = 8452697774857769 / 281474976710656"
    by code_simp
  show ?thesis
    by (simp only: sellAmount_def buyQuantity_everyday price amount)
qed

lemma profitPerTrade_everyday: "profitPerTrade 1999 30 2 = 8448473538089 / 281474976710656"
proof -
  have profit: "fsub (8452697774857769 / 281474976710656) 30 = 8448473538089 / 281474976710656"
    by code_simp
  show ?thesis
    by (simp only: profitPerTrade_def sellAmount_everyday profit)
qed

lemma totalFee_everyday: "totalFee 1999 30 2 fee_5bp = 4325618451501427 / 144115188075855872"
proof -
  have buyFee: "fmul 30 (1152921504606847 / 2305843009213693952) = 1080863910568919 / 72057594037927936"
    by code_simp
  have sellFee: "fmul (8452697774857769 / 281474976710656) (1152921504606847 / 2305843009213693952) = 2163890630363589 / 144115188075855872"
    by code_simp
  have total: "fadd (1080863910568919 / 72057594037927936) (2163890630363589 / 144115188075855872) = 4325618451501427 / 144115188075855872"
    by code_simp
  show ?thesis
    by (simp only: totalFee_def fee_5bp_value sellAmount_everyday buyFee sellFee total)
qed

lemma netProfit_everyday: "netProfit 1999 30 2 fee_5bp = 141 / 144115188075855872"
proof -
  have net: "fsub (8448473538089 / 281474976710656) (4325618451501427 / 144115188075855872) = 141 / 144115188075855872"
    by code_simp
  show ?thesis
    by (simp only: netProfit_def profitPerTrade_everyday totalFee_everyday net)
qed

lemma everyday_grid_accepted:
  "reference_net_profit 1999 30 2 fee_5bp < 0 \<and> netProfit 1999 30 2 fee_5bp > 0"
proof -
  have "reference_net_profit 1999 30 2 fee_5bp < 0"
    by (simp add: reference_net_profit_def fee_5bp_value)
  moreover have "netProfit 1999 30 2 fee_5bp > 0"
    by (simp only: netProfit_everyday)
  ultimately show ?thesis
    by simp
qed




text \<open>
  Claim C3. In a call that gets the venue's answers (the account fetch that opens the
  function succeeded) and in which the venue reports a position of nonzero size for
  the configured symbol (the entry of that symbol in the answer of \<open>GetPositions\<close>;
  the loop stops at the first one), the check returns nil whatever the leverage, the
  balance, the capacity and the net profit are: none of \<open>currentPrice\<close>,
  \<open>orderAmount\<close>, \<open>priceInterval\<close>, \<open>feeRate\<close>, \<open>requiredPositions\<close>, \<open>maxLeverage\<close> and
  none of the account's fields takes part in the result.
\<close>

theorem nonzero_position_skips_checks:
  assumes "GetAccount ex = Inr account"
    and "GetPositions ex symbol = Inr positions"
    and "find (\<lambda>p. Symbol p = symbol) positions = Some p"
    and "Size p \<noteq> 0"
  shows "CheckAccountSafety ex symbol currentPrice orderAmount priceInterval feeRate
           requiredPositions priceDecimals maxLeverage = Inr ()"
  using assms
  by (simp add: CheckAccountSafety_def positionAmt_def read_positions_def scan_positions_find)

theorem nonzero_position_skips_checks_witness:
  "GetAccount venue_long = Inr account_empty
   \<and> GetPositions venue_long ''ETHUSDT'' = Inr [position_long]
   \<and> find (\<lambda>p. Symbol p = ''ETHUSDT'') [position_long] = Some position_long
   \<and> Size position_long \<noteq> 0
   \<and> AvailableBalance account_empty \<le> 0
   \<and> Leverage position_long > 10
   \<and> CheckAccountSafety venue_long ''ETHUSDT'' 3000 30 10 (2 / 10000) 100 2 10 = Inr ()"
proof -
  have h1: "GetAccount venue_long = Inr account_empty"
    by (simp add: venue_long_def)
  have h2: "GetPositions venue_long ''ETHUSDT'' = Inr [position_long]"
    by (simp add: venue_long_def)
  have h3: "find (\<lambda>p. Symbol p = ''ETHUSDT'') [position_long] = Some position_long"
    by (simp add: position_long_def)
  have h4: "Size position_long \<noteq> 0"
    by (simp add: position_long_def)
  have more: "AvailableBalance account_empty \<le> 0 \<and> Leverage position_long > 10"
    by (simp add: account_empty_def position_long_def)
  show ?thesis
    using nonzero_position_skips_checks [OF h1 h2 h3 h4, of 3000 30 10 "2 / 10000" 100 2 10]
      h1 h2 h3 h4 more
    by simp
qed

section \<open>Properties of the configuration\<close>

lemma config_one_symbol_required: "required_fields config_one_symbol = None"
  by (simp add: required_fields_def config_one_symbol_def exchange_binance_def
        Mapping.lookup_update)

lemma recovery_threshold_lower: "1 \<le> monitorCount \<Longrightarrow> 1 \<le> recovery_threshold configured monitorCount"
  by (simp add: recovery_threshold_def)

lemma recovery_threshold_upper:
  "0 < configured \<or> 3 \<le> monitorCount \<Longrightarrow> recovery_threshold configured monitorCount \<le> monitorCount"
  by (auto simp: recovery_threshold_def)

lemma risk_defaults_one_symbol:
  "RecoveryThreshold (risk_defaults (RiskControl config_one_symbol)) = 3
   \<and> MonitorSymbols (risk_defaults (RiskControl config_one_symbol)) = [''BTCUSDT'']"
  by (simp add: risk_defaults_def config_one_symbol_def recovery_threshold_def Let_def)

text \<open>
  Claim C4. Every configuration that \<open>Validate\<close> accepts is said to leave with
  \<open>1 \<le> recovery_threshold \<le> len(monitor_symbols)\<close>, an unset threshold included. The
  chain of the source gives an unset (zero or negative) threshold its default 3 in the
  first branch and so never compares it with the number of monitored symbols: the
  configuration \<open>config_one_symbol\<close>, with one monitored symbol and no threshold, is
  accepted and leaves with threshold 3. The two lemmas above say where the bounds do
  hold: the lower one always, the upper one for a configured positive threshold or at
  least three monitored symbols.
\<close>

theorem recovery_threshold_default_unclamped:
  "\<exists>c. Validate config_one_symbol = Inr c
       \<and> RecoveryThreshold (RiskControl c) = 3
       \<and> length (MonitorSymbols (RiskControl c)) = 1"
proof -
  have tp: "take_profit_section (TakeProfit (trading_defaults (Trading config_one_symbol)))
      = Inr take_profit_off"
    by (simp add: trading_defaults_def config_one_symbol_def take_profit_section_def
          take_profit_off_def Let_def)
  show ?thesis
    by (simp add: Validate_def config_one_symbol_required Let_def tp risk_defaults_one_symbol)
qed

lemma trading_defaults_TakeProfit: "TakeProfit (trading_defaults t) = TakeProfit t"
  by (simp add: trading_defaults_def Let_def)

lemma take_profit_section_error:
  "Enabled tp \<Longrightarrow>
     (\<exists>err. take_profit_section tp = Inl err)
     \<longleftrightarrow> (TargetProfit tp \<le> 0 \<or> CheckInterval tp < 10 \<or> CheckInterval tp > 300
          \<or> (BalanceMode tp \<noteq> ''auto'' \<and> BalanceMode tp \<noteq> ''precise''))"
  by (auto simp: take_profit_section_def Let_def)

text \<open>
  Claim C7. For a configuration with take-profit enabled that passes the checks
  \<open>Validate\<close> makes before its take-profit section (exchange, credentials, fee rate,
  symbol, order amount, buy window), \<open>Validate\<close> returns an error exactly when the target
  profit is at most 0, or the check interval is below 10 or above 300 (an unset interval
  is 0, hence refused), or the balance mode is neither "auto" nor "precise" (an unset
  mode is empty, hence refused); otherwise it succeeds.
\<close>

theorem take_profit_validation:
  assumes "Enabled (TakeProfit (Trading c))" and "required_fields c = None"
  shows "(\<exists>err. Validate c = Inl err)
         \<longleftrightarrow> (TargetProfit (TakeProfit (Trading c)) \<le> 0
              \<or> CheckInterval (TakeProfit (Trading c)) < 10
              \<or> CheckInterval (TakeProfit (Trading c)) > 300
              \<or> (BalanceMode (TakeProfit (Trading c)) \<noteq> ''auto''
                  \<and> BalanceMode (TakeProfit (Trading c)) \<noteq> ''precise''))"
proof -
  have "(\<exists>err. Validate c = Inl err)
        \<longleftrightarrow> (\<exists>err. take_profit_section (TakeProfit (Trading c)) = Inl err)"
    using assms(2)
    by (simp add: Validate_def Let_def trading_defaults_TakeProfit split: sum.splits)
  then show ?thesis
    using take_profit_section_error [OF assms(1)] by simp
qed

theorem take_profit_validation_witness:
  "Enabled (TakeProfit (Trading config_take_profit))
   \<and> required_fields config_take_profit = None
   \<and> CheckInterval (TakeProfit (Trading config_take_profit)) = 0
   \<and> (\<exists>err. Validate config_take_profit = Inl err)"
proof -
  have tp: "TakeProfit (Trading config_take_profit) = take_profit_no_interval"
    by (simp add: config_take_profit_def)
  have h1: "Enabled (TakeProfit (Trading config_take_profit))"
    by (simp add: tp take_profit_no_interval_def)
  have h2: "required_fields config_take_profit = None"
    by (simp add: required_fields_def config_take_profit_def config_one_symbol_def
          exchange_binance_def Mapping.lookup_update)
  have h3: "CheckInterval (TakeProfit (Trading config_take_profit)) = 0"
    by (simp add: tp take_profit_no_interval_def)
  show ?thesis
    using take_profit_validation [OF h1 h2] h1 h2 h3 by simp
qed

section \<open>Properties of the take-profit monitor\<close>

lemma checkProfitAndTrigger_triggered:
  "triggered t \<Longrightarrow> checkProfitAndTrigger t response = Some (False, t)"
  by (simp add: checkProfitAndTrigger_def)

lemma checkProfitAndTrigger_failed_fetch:
  "checkProfitAndTrigger t (Inl err) = Some (False, t)"
  by (simp add: checkProfitAndTrigger_def)

lemma checkProfitAndTrigger_fires:
  "checkProfitAndTrigger t response = Some (True, t') \<Longrightarrow> triggered t'"
  by (auto simp: checkProfitAndTrigger_def Let_def split: if_splits sum.splits option.splits)

lemma checkProfitAndTrigger_snapshot:
  assumes "initialBalance t = Some initial"
  shows "checkProfitAndTrigger t (Inr account)
         = (if triggered t then Some (False, t)
            else if fsub (getEffectiveBalance t account) initial
                      \<ge> TargetProfit (TakeProfit (Trading (cfg t)))
              then Some (True, t\<lparr>lastBalance := Some (getEffectiveBalance t account),
                                 triggered := True\<rparr>)
              else Some (False, t\<lparr>lastBalance := Some (getEffectiveBalance t account)\<rparr>))"
  using assms by (simp add: checkProfitAndTrigger_def Let_def getEffectiveBalance_def)

text \<open>
  Claim C5. On a tick of the ticker with an initial balance recorded, \<open>Start\<close> calls the
  exit callback exactly when the monitor is not already triggered and the effective
  balance of the account snapshot minus the initial balance (the code's \<open>float64\<close>
  subtraction) reaches the target profit;
  on a tick whose account fetch fails it does not call it. The number of calls a single
  tick makes is read off the loop run on that tick alone.
\<close>

theorem take_profit_tick:
  assumes "isBalanceSet t" and "initialBalance t = Some initial"
  shows "(fst (snd (Start_loop t 0 [Tick (Inr account)])) = 1
          \<longleftrightarrow> \<not> triggered t
              \<and> fsub (getEffectiveBalance t account) initial
                    \<ge> TargetProfit (TakeProfit (Trading (cfg t))))
       \<and> fst (snd (Start_loop t 0 [Tick (Inl err)])) = 0"
  using assms
  by (simp add: checkProfitAndTrigger_snapshot [OF assms(2)] checkProfitAndTrigger_failed_fetch)

lemma monitor_running_target:
  "TargetProfit (TakeProfit (Trading (cfg monitor_running))) = 50"
  by (simp add: monitor_running_def config_take_profit_on_def take_profit_on_def)

lemma monitor_running_state:
  "isBalanceSet monitor_running \<and> initialBalance monitor_running = Some 1000
   \<and> \<not> triggered monitor_running"
  by (simp add: monitor_running_def)

lemma account_up_60_effective: "getEffectiveBalance t account_up_60 = 1060"
  by (simp add: getEffectiveBalance_def account_up_60_def)

lemma account_up_10_effective: "getEffectiveBalance t account_up_10 = 1010"
  by (simp add: getEffectiveBalance_def account_up_10_def)

lemma profit_60: "fsub 1060 1000 = 60"
  by code_simp

lemma profit_10: "fsub 1010 1000 = 10"
  by code_simp

theorem take_profit_tick_witness:
  "isBalanceSet monitor_running
   \<and> initialBalance monitor_running = Some 1000
   \<and> fst (snd (Start_loop monitor_running 0 [Tick (Inr account_up_60)])) = 1
   \<and> fst (snd (Start_loop monitor_running 0 [Tick (Inr account_up_10)])) \<noteq> 1
   \<and> fst (snd (Start_loop monitor_running 0 [Tick (Inl ''timeout'')])) = 0"
proof -
  have h1: "isBalanceSet monitor_running"
    and h2: "initialBalance monitor_running = Some 1000"
    by (simp_all add: monitor_running_state)
  show ?thesis
    using take_profit_tick [OF h1 h2, of account_up_60 "''timeout''"]
      take_profit_tick [OF h1 h2, of account_up_10 "''timeout''"]
    by (simp add: monitor_running_state monitor_running_target
          account_up_60_effective account_up_10_effective profit_60 profit_10)
qed

text \<open>
  Claim C8. The effective balance the monitor works with is the total margin balance
  if that is positive, otherwise the total wallet balance if that is positive,
  otherwise the available balance. The function does not read \<open>balance_mode\<close>: this is
  so for every monitor, those configured with "auto" among them.
\<close>

theorem effective_balance_auto:
  "getEffectiveBalance t account
     = (if TotalMarginBalance account > 0 then TotalMarginBalance account
        else if TotalWalletBalance account > 0 then TotalWalletBalance account
        else AvailableBalance account)"
  by (simp add: getEffectiveBalance_def Let_def)

lemma Start_loop_calls:
  "fst (snd (Start_loop t calls events))
     = calls + (if fst (Start_loop t calls events) = ReturnedAfterTrigger then 1 else 0)"
  by (induction t calls events rule: Start_loop.induct)
     (auto split: option.splits prod.splits)

lemma Start_loop_triggered:
  "fst (Start_loop t calls events) = ReturnedAfterTrigger
     \<Longrightarrow> triggered (snd (snd (Start_loop t calls events)))"
  by (induction t calls events rule: Start_loop.induct)
     (auto split: option.splits prod.splits if_splits dest: checkProfitAndTrigger_fires)

lemma Start_loop_returned:
  "fst (Start_loop t calls events) \<noteq> AwaitingEvent
     \<Longrightarrow> Start_loop t calls (events @ later) = Start_loop t calls events"
  by (induction t calls events rule: Start_loop.induct)
     (auto split: option.splits prod.splits if_splits)

text \<open>
  Claim C9. The exit callback is called at most once in a run of \<open>Start\<close>. On a monitor
  \<open>t'\<close> whose triggered flag is set, \<open>checkProfitAndTrigger\<close> returns false and leaves
  the monitor as it is, whatever the venue answers. \<open>Start\<close> calls the callback at most
  once, and does so exactly when it returns through the trigger branch; it then leaves
  the flag set, and no event that comes later is looked at.
\<close>

theorem onTrigger_at_most_once:
  "(triggered t' \<longrightarrow> checkProfitAndTrigger t' response = Some (False, t'))
   \<and> fst (snd (Start t events)) \<le> 1
   \<and> (fst (snd (Start t events)) = 1 \<longleftrightarrow> fst (Start t events) = ReturnedAfterTrigger)
   \<and> (fst (Start t events) = ReturnedAfterTrigger
        \<longrightarrow> triggered (snd (snd (Start t events)))
            \<and> Start t (events @ later) = Start t events)"
proof -
  have calls: "fst (snd (Start t events))
      = (if fst (Start t events) = ReturnedAfterTrigger then 1 else 0)"
    using Start_loop_calls [of t 0 events] by (simp add: Start_def)
  have flag: "fst (Start t events) = ReturnedAfterTrigger
      \<Longrightarrow> triggered (snd (snd (Start t events)))"
    using Start_loop_triggered [of t 0 events] by (simp add: Start_def split: if_splits)
  have stop: "fst (Start t events) = ReturnedAfterTrigger
      \<Longrightarrow> Start t (events @ later) = Start t events"
    using Start_loop_returned [of t 0 events later] by (simp add: Start_def split: if_splits)
  show ?thesis
    using calls flag stop by (simp add: checkProfitAndTrigger_triggered)
qed

lemma monitor_running_Start:
  "Start monitor_running [Tick (Inr account_up_10), Tick (Inr account_up_60)]
     = (ReturnedAfterTrigger, 1, monitor_fired)"
proof -
  have enabled: "Enabled (TakeProfit (Trading (cfg monitor_running)))"
    by (simp add: monitor_running_def config_take_profit_on_def take_profit_on_def)
  have first: "checkProfitAndTrigger monitor_running (Inr account_up_10)
      = Some (False, monitor_running\<lparr>lastBalance := Some 1010\<rparr>)"
    by (simp add: checkProfitAndTrigger_snapshot [of _ 1000] monitor_running_state
          monitor_running_target account_up_10_effective profit_10)
  have second: "checkProfitAndTrigger (monitor_running\<lparr>lastBalance := Some 1010\<rparr>)
      (Inr account_up_60) = Some (True, monitor_fired)"
    by (simp add: checkProfitAndTrigger_snapshot [of _ 1000] monitor_running_state
          monitor_running_target [simplified] account_up_60_effective profit_60
          monitor_fired_def)
  show ?thesis
    by (simp add: Start_def enabled first second monitor_running_state)
qed

theorem onTrigger_at_most_once_witness:
  "triggered monitor_fired
   \<and> checkProfitAndTrigger monitor_fired (Inr account_up_60) = Some (False, monitor_fired)
   \<and> fst (Start monitor_running [Tick (Inr account_up_10), Tick (Inr account_up_60)])
       = ReturnedAfterTrigger
   \<and> fst (snd (Start monitor_running [Tick (Inr account_up_10), Tick (Inr account_up_60)])) = 1
   \<and> Start monitor_running
        ([Tick (Inr account_up_10), Tick (Inr account_up_60)] @ [Tick (Inr account_up_60)])
       = (ReturnedAfterTrigger, 1, monitor_fired)"
proof -
  have fired: "triggered monitor_fired"
    by (simp add: monitor_fired_def)
  show ?thesis
    using onTrigger_at_most_once [of monitor_fired "Inr account_up_60" monitor_running
        "[Tick (Inr account_up_10), Tick (Inr account_up_60)]" "[Tick (Inr account_up_60)]"]
      fired
    by (simp add: monitor_running_Start)
qed

section \<open>Properties of the price-event loop\<close>

lemma price_loop_length: "length (price_loop lastTriggered events) = length events"
  by (induction events arbitrary: lastTriggered) (auto simp: Let_def)

lemma price_loop_nth:
  "i < length events \<Longrightarrow>
     price_loop lastTriggered events ! i
       = (if RiskTriggered (events ! i)
          then (if (if i = 0 then \<not> lastTriggered else \<not> RiskTriggered (events ! (i - 1)))
                then [CancelAllBuyOrders] else [])
          else [AdjustOrders (NewPrice (events ! i))])"
proof (induction events arbitrary: lastTriggered i)
  case Nil
  then show ?case by simp
next
  case (Cons e events)
  show ?case
  proof (cases i)
    case 0
    then show ?thesis by (simp add: Let_def)
  next
    case (Suc j)
    with Cons.prems have j: "j < length events" by simp
    show ?thesis
      using Cons.IH [OF j] Suc
      by (cases j) (auto simp: Let_def)
  qed
qed

text \<open>
  Claim C6. The loop answers every price event with one list of calls, and the list of
  event \<open>i\<close> is: nothing but \<open>CancelAllBuyOrders\<close> when the risk monitor is triggered at
  event \<open>i\<close> and was not at the event before (or \<open>i\<close> is the first event); no call at all
  when it is triggered at \<open>i\<close> and was at the event before; nothing but \<open>AdjustOrders\<close>
  on the new price when it is not triggered at \<open>i\<close>. So \<open>AdjustOrders\<close> is never called
  on a triggered event, is called on every untriggered one, and \<open>CancelAllBuyOrders\<close>
  is called exactly once for each rising edge.
\<close>

theorem main_loop_calls:
  "length (main_price_loop events) = length events
   \<and> (\<forall>i < length events.
         main_price_loop events ! i
           = (if RiskTriggered (events ! i)
              then (if i = 0 \<or> \<not> RiskTriggered (events ! (i - 1))
                    then [CancelAllBuyOrders] else [])
              else [AdjustOrders (NewPrice (events ! i))]))"
  by (auto simp: main_price_loop_def price_loop_length price_loop_nth)

theorem main_loop_calls_witness:
  "(2::nat) < length five_events
   \<and> main_price_loop five_events
       = [[AdjustOrders 3000], [CancelAllBuyOrders], [], [AdjustOrders 2985],
          [CancelAllBuyOrders]]
   \<and> main_price_loop five_events ! 2 = []"
proof -
  have len: "(2::nat) < length five_events"
    by (simp add: five_events_def)
  have run: "main_price_loop five_events
      = [[AdjustOrders 3000], [CancelAllBuyOrders], [], [AdjustOrders 2985],
         [CancelAllBuyOrders]]"
    by (simp add: main_price_loop_def five_events_def)
  from main_loop_calls [of five_events] len
  have "main_price_loop five_events ! 2
      = (if RiskTriggered (five_events ! 2)
         then (if (2::nat) = 0 \<or> \<not> RiskTriggered (five_events ! (2 - 1))
               then [CancelAllBuyOrders] else [])
         else [AdjustOrders (NewPrice (five_events ! 2))])"
    by blast
  then have "main_price_loop five_events ! 2 = []"
    by (simp add: five_events_def)
  with len run show ?thesis by simp
qed

section \<open>Properties of the log level parser\<close>

text \<open>
  Claim C10. \<open>ParseLogLevel\<close> is a total function (a definition without recursion: it
  returns one of the five levels on every string), and on every string whose trimmed,
  upper-cased form is none of "DEBUG", "INFO", "WARN", "WARNING", "ERROR", "FATAL" it
  returns \<open>INFO\<close>.
\<close>

theorem ParseLogLevel_default:
  assumes "ToUpper (TrimSpace level)
             \<notin> {''DEBUG'', ''INFO'', ''WARN'', ''WARNING'', ''ERROR'', ''FATAL''}"
  shows "ParseLogLevel ToUpper TrimSpace level = INFO"
  using assms by (simp add: ParseLogLevel_def Let_def)

lemma verbose_normalised: "ascii_ToUpper (ascii_TrimSpace '' verbose '') = ''VERBOSE''"
  by code_simp

theorem ParseLogLevel_default_witness:
  "ascii_ToUpper (ascii_TrimSpace '' verbose '')
     \<notin> {''DEBUG'', ''INFO'', ''WARN'', ''WARNING'', ''ERROR'', ''FATAL''}
   \<and> ParseLogLevel ascii_ToUpper ascii_TrimSpace '' verbose '' = INFO"
proof -
  have h: "ascii_ToUpper (ascii_TrimSpace '' verbose '')
      \<notin> {''DEBUG'', ''INFO'', ''WARN'', ''WARNING'', ''ERROR'', ''FATAL''}"
    by (simp add: verbose_normalised)
  show ?thesis
    using ParseLogLevel_default [of ascii_ToUpper ascii_TrimSpace "'' verbose ''"] h by simp
qed

end
